theory Spec2Isabelle
  imports Complex_Main "HOL-Library.Multiset"
begin

section \<open>Python values and dictionaries\<close>

text \<open>
  The dashboard (app.py) works on the values that \<open>json.load\<close> returns: None, booleans,
  ints, floats, strings, lists and dicts. A dict keeps its keys in insertion order, so it is
  an association list (with distinct keys, for a dict that was loaded); \<open>map_of\<close> is
  the lookup. A float is taken as the exact rational that the document denotes: binary
  rounding, NaN and the infinities are not part of this model.

  The model covers what app.py itself does with the documents: the reads, the loops and
  comprehensions, the arithmetic, and the exceptions these raise, in the order of the
  source. Formatting numbers into text and the calls into streamlit, pandas and plotly
  belong to the presentation layer and are left out.
\<close>

datatype json =
    JNull
  | JBool bool
  | JInt int
  | JFloat rat
  | JStr string
  | JArr "json list"
  | JObj "(string \<times> json) list"

text \<open>The exceptions that the modelled code can raise.\<close>

datatype error =
    KeyError json
  | TypeError
  | AttributeError
  | IndexError
  | ZeroDivisionError
  | FileError

type_synonym 'v dict = "(string \<times> 'v) list"

text \<open>Sequencing: an exception ends the computation.\<close>

fun and_then :: "error + 'a \<Rightarrow> ('a \<Rightarrow> error + 'b) \<Rightarrow> error + 'b" where
  "and_then (Inl e) f = Inl e"
| "and_then (Inr x) f = f x"

text \<open>A list comprehension \<open>[f(x) for x in xs]\<close> whose body may raise.\<close>

fun for_each :: "('a \<Rightarrow> error + 'b) \<Rightarrow> 'a list \<Rightarrow> error + 'b list" where
  "for_each f [] = Inr []"
| "for_each f (x # xs) =
     and_then (f x) (\<lambda>y. and_then (for_each f xs) (\<lambda>ys. Inr (y # ys)))"

text \<open>A comprehension with a condition, \<open>[x for x in xs if p(x)]\<close>.\<close>

fun for_each_if :: "('a \<Rightarrow> error + bool) \<Rightarrow> 'a list \<Rightarrow> error + 'a list" where
  "for_each_if p [] = Inr []"
| "for_each_if p (x # xs) =
     and_then (p x) (\<lambda>b. and_then (for_each_if p xs) (\<lambda>ys. Inr (if b then x # ys else ys)))"

text \<open>A loop that updates an accumulator and may raise in its body.\<close>

fun loop :: "('s \<Rightarrow> 'a \<Rightarrow> error + 's) \<Rightarrow> 'a list \<Rightarrow> 's \<Rightarrow> error + 's" where
  "loop body [] s = Inr s"
| "loop body (x # xs) s = and_then (body s x) (loop body xs)"

text \<open>\<open>d.get(k, default)\<close> on a dict.\<close>

definition dict_get :: "'v dict \<Rightarrow> string \<Rightarrow> 'v \<Rightarrow> 'v" where
  "dict_get d k dflt = (case map_of d k of Some v \<Rightarrow> v | None \<Rightarrow> dflt)"

text \<open>\<open>d[k] = v\<close>: an existing key keeps its position, a new key goes last.\<close>

fun dict_set :: "'v dict \<Rightarrow> string \<Rightarrow> 'v \<Rightarrow> 'v dict" where
  "dict_set [] k v = [(k, v)]"
| "dict_set ((k', v') # d) k v =
     (if k' = k then (k', v) # d else (k', v') # dict_set d k v)"

text \<open>\<open>xs[i]\<close> on a list: a negative index counts from the end.\<close>

definition list_index :: "'a list \<Rightarrow> int \<Rightarrow> error + 'a" where
  "list_index xs i =
     (if 0 \<le> i \<and> i < int (length xs) then Inr (xs ! nat i)
      else if i < 0 \<and> - int (length xs) \<le> i then Inr (xs ! nat (int (length xs) + i))
      else Inl IndexError)"

text \<open>
  \<open>v[k]\<close> for any two values. A dict hashes the key (lists and dicts are unhashable) and
  has string keys only; a list or a string wants an int (a bool is an int).
\<close>

fun py_index :: "json \<Rightarrow> json \<Rightarrow> error + json" where
  "py_index (JObj d) (JStr k) =
     (case map_of d k of Some v \<Rightarrow> Inr v | None \<Rightarrow> Inl (KeyError (JStr k)))"
| "py_index (JObj d) (JArr xs) = Inl TypeError"
| "py_index (JObj d) (JObj d') = Inl TypeError"
| "py_index (JObj d) k = Inl (KeyError k)"
| "py_index (JArr xs) (JInt i) = list_index xs i"
| "py_index (JArr xs) (JBool b) = list_index xs (if b then 1 else 0)"
| "py_index (JArr xs) k = Inl TypeError"
| "py_index (JStr s) (JInt i) = and_then (list_index s i) (\<lambda>c. Inr (JStr [c]))"
| "py_index (JStr s) (JBool b) =
     and_then (list_index s (if b then 1 else 0)) (\<lambda>c. Inr (JStr [c]))"
| "py_index (JStr s) k = Inl TypeError"
| "py_index v k = Inl TypeError"

text \<open>\<open>v['k']\<close> with a string literal.\<close>

definition subscript :: "json \<Rightarrow> string \<Rightarrow> error + json" where
  "subscript v k = py_index v (JStr k)"

text \<open>\<open>v.get('k', default)\<close>: only a dict has the method.\<close>

fun py_get :: "json \<Rightarrow> string \<Rightarrow> json \<Rightarrow> error + json" where
  "py_get (JObj d) k dflt = Inr (dict_get d k dflt)"
| "py_get v k dflt = Inl AttributeError"

text \<open>\<open>v.items()\<close> and \<open>v.keys()\<close>.\<close>

fun items :: "json \<Rightarrow> error + json dict" where
  "items (JObj d) = Inr d"
| "items v = Inl AttributeError"

fun keys :: "json \<Rightarrow> error + string list" where
  "keys (JObj d) = Inr (map fst d)"
| "keys v = Inl AttributeError"

text \<open>\<open>for c in v\<close>: the keys of a dict, the elements of a list, the characters of a string.\<close>

fun py_iter :: "json \<Rightarrow> error + json list" where
  "py_iter (JObj d) = Inr (map (\<lambda>(k, v). JStr k) d)"
| "py_iter (JArr xs) = Inr xs"
| "py_iter (JStr s) = Inr (map (\<lambda>c. JStr [c]) s)"
| "py_iter v = Inl TypeError"

text \<open>\<open>x in ['a', 'b']\<close>: equality with one of the string literals.\<close>

fun py_in_list :: "json \<Rightarrow> string list \<Rightarrow> bool" where
  "py_in_list (JStr s) lits = list_ex (\<lambda>l. s = l) lits"
| "py_in_list v lits = False"

text \<open>\<open>x in d\<close> for a dict with string keys: the key is hashed first.\<close>

fun py_in_dict :: "json \<Rightarrow> 'v dict \<Rightarrow> error + bool" where
  "py_in_dict (JStr s) d = Inr (s \<in> set (map fst d))"
| "py_in_dict (JArr xs) d = Inl TypeError"
| "py_in_dict (JObj d') d = Inl TypeError"
| "py_in_dict v d = Inr False"

text \<open>The number that arithmetic sees in a value; anything but a number raises.\<close>

fun as_number :: "json \<Rightarrow> error + rat" where
  "as_number (JInt i) = Inr (of_int i)"
| "as_number (JFloat r) = Inr r"
| "as_number (JBool b) = Inr (if b then 1 else 0)"
| "as_number v = Inl TypeError"

definition py_sub :: "json \<Rightarrow> json \<Rightarrow> error + rat" where
  "py_sub a b = and_then (as_number a) (\<lambda>x. and_then (as_number b) (\<lambda>y. Inr (x - y)))"

text \<open>
  \<open>a * b\<close>, as far as the division that follows it accepts the product: a number. (An
  int times a string or list is a repetition, which that division rejects with TypeError.)
\<close>

definition py_mul :: "json \<Rightarrow> json \<Rightarrow> error + rat" where
  "py_mul a b = and_then (as_number a) (\<lambda>x. and_then (as_number b) (\<lambda>y. Inr (x * y)))"

text \<open>\<open>a / n\<close> by a non-zero literal.\<close>

definition py_div_lit :: "json \<Rightarrow> rat \<Rightarrow> error + rat" where
  "py_div_lit a n = and_then (as_number a) (\<lambda>x. Inr (x / n))"

text \<open>\<open>sum(xs)\<close>: starts from 0 and adds from the left.\<close>

definition py_sum :: "json list \<Rightarrow> error + rat" where
  "py_sum xs = loop (\<lambda>acc x. and_then (as_number x) (\<lambda>y. Inr (acc + y))) xs 0"

text \<open>\<open>int(x)\<close> of a number: the fraction is cut off, towards zero.\<close>

definition py_int :: "rat \<Rightarrow> int" where
  "py_int x = (if 0 \<le> x then \<lfloor>x\<rfloor> else \<lceil>x\<rceil>)"

text \<open>\<open>str(n)\<close> of a natural number.\<close>

definition digit_char :: "nat \<Rightarrow> char" where
  "digit_char d = char_of (48 + d)"

fun str_nat :: "nat \<Rightarrow> string" where
  "str_nat n = (if n < 10 then [digit_char n] else str_nat (n div 10) @ [digit_char (n mod 10)])"

declare str_nat.simps [simp del]

section \<open>Name Resolver (app.py, lines 59-74)\<close>

definition COUNTY_NAME_MAP :: "string dict" where
  "COUNTY_NAME_MAP =
     [(''Elgeyo Marakwet'', ''Keiyo-Marakwet''),
      (''Tharaka Nithi'', ''Tharaka'')]"

text \<open>\<open>{v: k for k, v in COUNTY_NAME_MAP.items()}\<close>\<close>

definition GEOJSON_TO_DATA_MAP :: "string dict" where
  "GEOJSON_TO_DATA_MAP = foldl (\<lambda>d (k, v). dict_set d v k) [] COUNTY_NAME_MAP"

definition get_geojson_name :: "string \<Rightarrow> string" where
  "get_geojson_name data_name = dict_get COUNTY_NAME_MAP data_name data_name"

definition get_data_name :: "string \<Rightarrow> string" where
  "get_data_name geojson_name = dict_get GEOJSON_TO_DATA_MAP geojson_name geojson_name"

section \<open>Data Loader (app.py, lines 76-98)\<close>

text \<open>
  Opening and parsing a file either gives the parsed document or raises; that outcome is
  the argument of each loader. The two statistical loaders let the exception through.
  \<open>load_geojson\<close> catches it, shows \<open>Error loading GeoJSON\<close> and returns None; the
  first component of its result is what it shows.
\<close>

datatype notice =
    Error_loading_GeoJSON error
  | GeoJSON_file_not_found_Map_visualization_is_unavailable
  | The_map_requires_kenya_counties_geojson

definition load_election_data :: "error + json \<Rightarrow> error + json" where
  "load_election_data file = file"

definition load_county_data :: "error + json \<Rightarrow> error + json" where
  "load_county_data file = file"

definition load_geojson :: "error + json \<Rightarrow> notice list \<times> json option" where
  "load_geojson file =
     (case file of
        Inr doc \<Rightarrow> ([], Some doc)
      | Inl e \<Rightarrow> ([Error_loading_GeoJSON e], None))"

section \<open>Interactive Map (app.py, lines 194-227)\<close>

text \<open>\<open>v['a']['b']\<close>\<close>

definition subscript2 :: "json \<Rightarrow> string \<Rightarrow> string \<Rightarrow> error + json" where
  "subscript2 v a b = and_then (subscript v a) (\<lambda>x. subscript x b)"

record map_row =
  County :: string
  Display_Name :: string
  Swing_Potential :: json
  Ruto_2022 :: json
  Odinga_2022 :: json
  Projected_Voters_2027 :: json
  Youth_Percentage :: json
  Turnout_2022 :: json
  Trend_2027 :: json

text \<open>The body of the loop: the fields of \<open>county_dict\<close> are read in the order written.\<close>

definition county_dict :: "string \<Rightarrow> json \<Rightarrow> error + map_row" where
  "county_dict county_name county_info =
     (let geojson_name = get_geojson_name county_name in
      and_then (subscript2 county_info ''prediction_2027'' ''swing_potential'') (\<lambda>swing.
      and_then (subscript2 county_info ''results_2022'' ''Ruto'') (\<lambda>ruto.
      and_then (subscript2 county_info ''results_2022'' ''Odinga'') (\<lambda>odinga.
      and_then (subscript2 county_info ''prediction_2027'' ''projected_voters'') (\<lambda>projected.
      and_then (subscript county_info ''youth_percentage'') (\<lambda>youth.
      and_then (subscript2 county_info ''results_2022'' ''turnout'') (\<lambda>turnout.
      and_then (subscript2 county_info ''prediction_2027'' ''trend'') (\<lambda>trend.
      Inr \<lparr>County = geojson_name, Display_Name = county_name,
           Swing_Potential = swing, Ruto_2022 = ruto, Odinga_2022 = odinga,
           Projected_Voters_2027 = projected, Youth_Percentage = youth,
           Turnout_2022 = turnout, Trend_2027 = trend\<rparr>))))))))"

definition map_data :: "json \<Rightarrow> error + map_row list" where
  "map_data county_data =
     and_then (subscript county_data ''counties'') (\<lambda>counties.
     and_then (items counties) (\<lambda>kvs.
     for_each (\<lambda>(county_name, county_info). county_dict county_name county_info) kvs))"

text \<open>
  The page: without the boundary document it shows two messages and nothing else; with
  it, the rows of \<open>map_data\<close> go to pandas and plotly together with the document (the
  choropleth and the insight metrics computed there are presentation).
\<close>

datatype map_page =
    Map_Unavailable "notice list"
  | Map_Rows json "map_row list"

definition interactive_map :: "json option \<Rightarrow> json \<Rightarrow> error + map_page" where
  "interactive_map kenya_geojson county_data =
     (case kenya_geojson of
        None \<Rightarrow> Inr (Map_Unavailable
                 [GeoJSON_file_not_found_Map_visualization_is_unavailable,
                  The_map_requires_kenya_counties_geojson])
      | Some g \<Rightarrow> and_then (map_data county_data) (\<lambda>rows. Inr (Map_Rows g rows)))"

section \<open>Historical Results (app.py, lines 439-493)\<close>

record historical_page =
  h_registered_voters :: json
  h_votes_cast :: json
  h_turnout :: json
  h_candidates :: json

definition historical_results :: "json \<Rightarrow> nat \<Rightarrow> error + historical_page" where
  "historical_results data selected_year =
     and_then (subscript2 data ''elections'' (str_nat selected_year)) (\<lambda>election.
     and_then (subscript election ''registered_voters'') (\<lambda>registered.
     and_then (subscript election ''votes_cast'') (\<lambda>cast.
     and_then (subscript election ''turnout'') (\<lambda>turnout.
     and_then (subscript election ''candidates'') (\<lambda>candidates.
     Inr \<lparr>h_registered_voters = registered, h_votes_cast = cast,
          h_turnout = turnout, h_candidates = candidates\<rparr>)))))"

section \<open>Turnout Trends (app.py, lines 496-569)\<close>

record turnout_lists =
  years :: "nat list"
  turnouts :: "json list"
  registered :: "json list"
  votes_cast :: "json list"

definition turnout_year :: "json \<Rightarrow> turnout_lists \<Rightarrow> nat \<Rightarrow> error + turnout_lists" where
  "turnout_year data acc year =
     and_then (subscript2 data ''elections'' (str_nat year)) (\<lambda>election.
     and_then (subscript election ''turnout'') (\<lambda>t.
     and_then (subscript election ''registered_voters'') (\<lambda>r.
     and_then (subscript election ''votes_cast'') (\<lambda>v.
     Inr \<lparr>years = years acc @ [year], turnouts = turnouts acc @ [t],
          registered = registered acc @ [r], votes_cast = votes_cast acc @ [v]\<rparr>))))"

definition turnout_loop :: "json \<Rightarrow> error + turnout_lists" where
  "turnout_loop data =
     loop (turnout_year data) [2002, 2007, 2013, 2017, 2022]
       \<lparr>years = [], turnouts = [], registered = [], votes_cast = []\<rparr>"

text \<open>\<open>sum(turnouts)/len(turnouts)\<close>\<close>

definition average :: "json list \<Rightarrow> error + rat" where
  "average xs =
     and_then (py_sum xs) (\<lambda>s.
     if length xs = 0 then Inl ZeroDivisionError else Inr (s / of_nat (length xs)))"

text \<open>\<open>max\<close> and \<open>min\<close> of a non-empty list of numbers.\<close>

definition py_max :: "json list \<Rightarrow> error + rat" where
  "py_max xs = and_then (for_each as_number xs) (\<lambda>ns. Inr (foldl max (hd ns) (tl ns)))"

definition py_min :: "json list \<Rightarrow> error + rat" where
  "py_min xs = and_then (for_each as_number xs) (\<lambda>ns. Inr (foldl min (hd ns) (tl ns)))"

record turnout_page =
  t_lists :: turnout_lists
  registered_millions :: "rat list"
  average_turnout :: rat
  highest_turnout :: rat
  lowest_turnout :: rat
  change_2022_vs_2017 :: rat

definition turnout_trends :: "json \<Rightarrow> error + turnout_page" where
  "turnout_trends data =
     and_then (turnout_loop data) (\<lambda>ls.
     and_then (for_each (\<lambda>v. py_div_lit v 1000000) (registered ls)) (\<lambda>millions.
     and_then (average (turnouts ls)) (\<lambda>avg.
     and_then (py_max (turnouts ls)) (\<lambda>hi.
     and_then (py_min (turnouts ls)) (\<lambda>lo.
     and_then (list_index (turnouts ls) (- 1)) (\<lambda>last.
     and_then (list_index (turnouts ls) (- 2)) (\<lambda>previous.
     and_then (py_sub last previous) (\<lambda>change.
     Inr \<lparr>t_lists = ls, registered_millions = millions, average_turnout = avg,
          highest_turnout = hi, lowest_turnout = lo, change_2022_vs_2017 = change\<rparr>))))))))"

section \<open>Regional Patterns (app.py, lines 572-623)\<close>

text \<open>\<open>[regional_data[r]['Kibaki'] for r in regions]\<close>\<close>

definition region_votes :: "json \<Rightarrow> string list \<Rightarrow> string \<Rightarrow> error + json list" where
  "region_votes regional_data rs candidate =
     for_each (\<lambda>r. subscript2 regional_data r candidate) rs"

text \<open>
  \<open>sorted(pairs, key=lambda x: x[1], reverse=True)[:4]\<close>: a stable sort by descending
  percentage. A list of at most one pair is never compared. The percentages are compared
  as numbers; Python also orders values of some other types among themselves (strings,
  for one), which this model reports as TypeError like every comparison that fails.
\<close>

definition strongest :: "(string \<times> json) list \<Rightarrow> error + (string \<times> json) list" where
  "strongest pairs =
     (if length pairs \<le> 1 then Inr pairs
      else and_then (for_each (\<lambda>(r, p). as_number p) pairs) (\<lambda>ns.
           Inr (take 4 (map fst (sort_key (\<lambda>(x, n). - n) (zip pairs ns))))))"

record regional_page =
  regions :: "string list"
  kibaki_votes :: "json list"
  kenyatta_votes :: "json list"
  nyachae_votes :: "json list"
  kibaki_regions :: "(string \<times> json) list"
  kenyatta_regions :: "(string \<times> json) list"

definition regional_patterns :: "json \<Rightarrow> error + regional_page" where
  "regional_patterns data =
     and_then (subscript2 data ''elections'' ''2002'') (\<lambda>election_2002.
     and_then (subscript election_2002 ''regional'') (\<lambda>regional_data.
     and_then (keys regional_data) (\<lambda>rs.
     and_then (region_votes regional_data rs ''Kibaki'') (\<lambda>kibaki.
     and_then (region_votes regional_data rs ''Kenyatta'') (\<lambda>kenyatta.
     and_then (region_votes regional_data rs ''Nyachae'') (\<lambda>nyachae.
     and_then (region_votes regional_data rs ''Kibaki'') (\<lambda>k2.
     and_then (strongest (zip rs k2)) (\<lambda>kibaki_top.
     and_then (region_votes regional_data rs ''Kenyatta'') (\<lambda>k3.
     and_then (strongest (zip rs k3)) (\<lambda>kenyatta_top.
     Inr \<lparr>regions = rs, kibaki_votes = kibaki, kenyatta_votes = kenyatta,
          nyachae_votes = nyachae, kibaki_regions = kibaki_top,
          kenyatta_regions = kenyatta_top\<rparr>))))))))))"

section \<open>County Analysis (app.py, lines 626-739)\<close>

text \<open>\<open>v.get('a', {}).get('b', default)\<close>\<close>

definition get2 :: "json \<Rightarrow> string \<Rightarrow> string \<Rightarrow> json \<Rightarrow> error + json" where
  "get2 v a b dflt = and_then (py_get v a (JObj [])) (\<lambda>x. py_get x b dflt)"

record county_page =
  population :: json
  registered_voters_2022 :: json
  youth_percentage :: json
  turnout_2022 :: json
  turnout_2017 :: json
  turnout_change :: rat
  kenyatta_2017 :: json
  odinga_2017 :: json
  ruto_2022 :: json
  odinga_2022 :: json
  gov_shift :: rat
  opp_shift :: rat

text \<open>
  The page for the county chosen in the selectbox (which offers the sorted keys of
  \<open>county_data['counties']\<close>).
\<close>

definition county_analysis :: "json \<Rightarrow> string \<Rightarrow> error + county_page" where
  "county_analysis county_data selected_county =
     and_then (subscript county_data ''counties'') (\<lambda>cs.
     and_then (keys cs) (\<lambda>counties.
     and_then (subscript2 county_data ''counties'' selected_county) (\<lambda>county_info.
     and_then (py_get county_info ''population'' (JInt 0)) (\<lambda>pop.
     and_then (py_get county_info ''registered_voters_2022'' (JInt 0)) (\<lambda>reg.
     and_then (py_get county_info ''youth_percentage'' (JInt 0)) (\<lambda>youth.
     and_then (get2 county_info ''results_2022'' ''turnout'' (JInt 0)) (\<lambda>t22.
     and_then (get2 county_info ''results_2017'' ''turnout'' (JInt 0)) (\<lambda>t17.
     and_then (py_sub t22 t17) (\<lambda>change.
     and_then (py_get county_info ''results_2017'' (JObj [])) (\<lambda>results_2017.
     and_then (py_get county_info ''results_2022'' (JObj [])) (\<lambda>results_2022.
     and_then (py_get results_2017 ''Kenyatta'' (JInt 0)) (\<lambda>k17.
     and_then (py_get results_2017 ''Odinga'' (JInt 0)) (\<lambda>o17.
     and_then (py_get results_2022 ''Ruto'' (JInt 0)) (\<lambda>r22.
     and_then (py_get results_2022 ''Odinga'' (JInt 0)) (\<lambda>o22.
     and_then (py_sub r22 k17) (\<lambda>gov.
     and_then (py_sub o22 o17) (\<lambda>opp.
     Inr \<lparr>population = pop, registered_voters_2022 = reg, youth_percentage = youth,
          turnout_2022 = t22, turnout_2017 = t17, turnout_change = change,
          kenyatta_2017 = k17, odinga_2017 = o17, ruto_2022 = r22, odinga_2022 = o22,
          gov_shift = gov, opp_shift = opp\<rparr>)))))))))))))))))"

section \<open>County Predictions 2027 (app.py, lines 742-875)\<close>

text \<open>\<open>county_data['counties'][c]\<close>\<close>

definition county_of :: "json \<Rightarrow> json \<Rightarrow> error + json" where
  "county_of county_data c =
     and_then (subscript county_data ''counties'') (\<lambda>counties. py_index counties c)"

text \<open>\<open>for c in county_data['counties']\<close>\<close>

definition county_names :: "json \<Rightarrow> error + json list" where
  "county_names county_data = and_then (subscript county_data ''counties'') py_iter"

definition total_new_youth :: "json \<Rightarrow> error + rat" where
  "total_new_youth county_data =
     and_then (county_names county_data) (\<lambda>cs.
     loop (\<lambda>total c.
       and_then (county_of county_data c) (\<lambda>info.
       and_then (py_get info ''prediction_2027'' (JObj [])) (\<lambda>pred.
       and_then (py_get pred ''new_youth_voters'' (JInt 0)) (\<lambda>v.
       and_then (as_number v) (\<lambda>n. Inr (total + n)))))) cs 0)"

text \<open>
  The condition of the comprehensions at lines 760 and 844: the county's swing potential,
  the empty string when absent, is one of the listed literals.
\<close>

definition swing_in :: "json \<Rightarrow> string list \<Rightarrow> json \<Rightarrow> error + bool" where
  "swing_in county_data lits c =
     and_then (county_of county_data c) (\<lambda>info.
     and_then (get2 info ''prediction_2027'' ''swing_potential'' (JStr [])) (\<lambda>s.
     Inr (py_in_list s lits)))"

definition swing_counties :: "json \<Rightarrow> error + nat" where
  "swing_counties county_data =
     and_then (county_names county_data) (\<lambda>cs.
     and_then (for_each_if (swing_in county_data [''High'', ''Very High'']) cs) (\<lambda>sel.
     Inr (sum_list (map (\<lambda>c. 1) sel))))"

definition battleground :: "json \<Rightarrow> error + json list" where
  "battleground county_data =
     and_then (county_names county_data) (\<lambda>cs.
     for_each_if (swing_in county_data [''Very High'', ''High'']) cs)"

text \<open>\<open>len(v)\<close>\<close>

fun py_len :: "json \<Rightarrow> error + nat" where
  "py_len (JObj d) = Inr (length d)"
| "py_len (JArr xs) = Inr (length xs)"
| "py_len (JStr s) = Inr (length s)"
| "py_len v = Inl TypeError"

definition avg_youth :: "json \<Rightarrow> error + rat" where
  "avg_youth county_data =
     and_then (county_names county_data) (\<lambda>cs.
     and_then (for_each (\<lambda>c. and_then (county_of county_data c)
                               (\<lambda>info. py_get info ''youth_percentage'' (JInt 0))) cs) (\<lambda>ys.
     and_then (py_sum ys) (\<lambda>total.
     and_then (and_then (subscript county_data ''counties'') py_len) (\<lambda>n.
     if n = 0 then Inl ZeroDivisionError else Inr (total / of_nat n)))))"

record pred_row =
  p_County :: string
  p_Projected_Voters :: json
  p_New_Youth_Voters :: json
  p_Likely_Turnout :: json
  p_Trend :: json
  p_Swing_Potential :: json

definition pred_row_of :: "string \<Rightarrow> json \<Rightarrow> error + pred_row" where
  "pred_row_of county_name county_info =
     and_then (py_get county_info ''prediction_2027'' (JObj [])) (\<lambda>pred.
     and_then (py_get pred ''projected_voters'' (JInt 0)) (\<lambda>projected.
     and_then (py_get pred ''new_youth_voters'' (JInt 0)) (\<lambda>youth.
     and_then (py_get pred ''likely_turnout'' (JInt 0)) (\<lambda>turnout.
     and_then (py_get pred ''trend'' (JStr ''Unknown'')) (\<lambda>trend.
     and_then (py_get pred ''swing_potential'' (JStr ''Unknown'')) (\<lambda>swing.
     Inr \<lparr>p_County = county_name, p_Projected_Voters = projected,
          p_New_Youth_Voters = youth, p_Likely_Turnout = turnout,
          p_Trend = trend, p_Swing_Potential = swing\<rparr>))))))"

definition county_pred_data :: "json \<Rightarrow> error + pred_row list" where
  "county_pred_data county_data =
     and_then (subscript county_data ''counties'') (\<lambda>counties.
     and_then (items counties) (\<lambda>kvs.
     for_each (\<lambda>(county_name, county_info). pred_row_of county_name county_info) kvs))"

text \<open>The grouping by swing potential (lines 804-815).\<close>

definition swing_levels :: "string list" where
  "swing_levels = [''Very High'', ''High'', ''Medium'', ''Low'', ''Very Low'']"

definition empty_groups :: "string list dict" where
  "empty_groups = map (\<lambda>l. (l, [])) swing_levels"

text \<open>\<open>groups[k].append(x)\<close> for a key of the dict.\<close>

fun dict_append :: "'a list dict \<Rightarrow> string \<Rightarrow> 'a \<Rightarrow> 'a list dict" where
  "dict_append [] k x = []"
| "dict_append ((k', xs) # d) k x =
     (if k' = k then (k', xs @ [x]) # d else (k', xs) # dict_append d k x)"

definition group_county :: "string list dict \<Rightarrow> string \<times> json \<Rightarrow> error + string list dict" where
  "group_county groups kv =
     (case kv of (county_name, county_info) \<Rightarrow>
        and_then (get2 county_info ''prediction_2027'' ''swing_potential'' (JStr ''Unknown''))
          (\<lambda>swing_potential.
        and_then (py_in_dict swing_potential groups) (\<lambda>known.
        if known
        then (case swing_potential of
                JStr level \<Rightarrow> Inr (dict_append groups level county_name)
              | _ \<Rightarrow> Inr groups)
        else Inr groups)))"

definition swing_groups :: "json \<Rightarrow> error + string list dict" where
  "swing_groups county_data =
     and_then (subscript county_data ''counties'') (\<lambda>counties.
     and_then (items counties) (\<lambda>kvs. loop group_county kvs empty_groups))"

text \<open>The regional trends at the foot of the page (lines 870-875).\<close>

definition replace_char :: "char \<Rightarrow> char \<Rightarrow> string \<Rightarrow> string" where
  "replace_char a b s = map (\<lambda>c. if c = a then b else c) s"

fun the_str :: "json \<Rightarrow> error + string" where
  "the_str (JStr s) = Inr s"
| "the_str v = Inl TypeError"

fun intercalate :: "string \<Rightarrow> string list \<Rightarrow> string" where
  "intercalate sep [] = []"
| "intercalate sep [x] = x"
| "intercalate sep (x # y # ys) = x @ sep @ intercalate sep (y # ys)"

text \<open>\<open>sep.join(v)\<close>: every item of the iterable has to be a string.\<close>

definition py_join :: "string \<Rightarrow> json \<Rightarrow> error + string" where
  "py_join sep v =
     and_then (py_iter v) (\<lambda>xs. and_then (for_each the_str xs) (\<lambda>ss. Inr (intercalate sep ss)))"

record region_row =
  r_name :: string
  r_counties :: string
  r_trend :: json
  r_key_factor :: json

definition region_row_of :: "string \<Rightarrow> json \<Rightarrow> error + region_row" where
  "region_row_of region_name region_info =
     and_then (py_get region_info ''counties'' (JArr [])) (\<lambda>cs.
     and_then (py_join '', '' cs) (\<lambda>joined.
     and_then (py_get region_info ''trend'' (JStr ''Unknown'')) (\<lambda>trend.
     and_then (py_get region_info ''key_factor'' (JStr ''Unknown'')) (\<lambda>factor.
     Inr \<lparr>r_name = replace_char (CHR ''_'') (CHR '' '') region_name, r_counties = joined,
          r_trend = trend, r_key_factor = factor\<rparr>))))"

definition regional_trends :: "json \<Rightarrow> error + region_row list" where
  "regional_trends county_data =
     and_then (py_get county_data ''regional_trends'' (JObj [])) (\<lambda>trends.
     and_then (items trends) (\<lambda>kvs.
     for_each (\<lambda>(region_name, region_info). region_row_of region_name region_info) kvs))"

record predictions_page =
  c_total_new_youth :: rat
  c_swing_counties :: nat
  c_avg_youth :: rat
  c_county_pred_data :: "pred_row list"
  c_swing_groups :: "string list dict"
  c_battleground :: "json list"
  c_regional_trends :: "region_row list"

definition county_predictions :: "json \<Rightarrow> error + predictions_page" where
  "county_predictions county_data =
     and_then (total_new_youth county_data) (\<lambda>youth.
     and_then (swing_counties county_data) (\<lambda>swing.
     and_then (avg_youth county_data) (\<lambda>avg.
     and_then (county_pred_data county_data) (\<lambda>rows.
     and_then (swing_groups county_data) (\<lambda>groups.
     and_then (battleground county_data) (\<lambda>battle.
     and_then (regional_trends county_data) (\<lambda>trends.
     Inr \<lparr>c_total_new_youth = youth, c_swing_counties = swing, c_avg_youth = avg,
          c_county_pred_data = rows, c_swing_groups = groups, c_battleground = battle,
          c_regional_trends = trends\<rparr>)))))))"

section \<open>2027 National Predictions (app.py, lines 878-1008)\<close>

text \<open>\<open>int(total * turnout / 100)\<close>\<close>

definition projected_votes :: "json \<Rightarrow> json \<Rightarrow> error + int" where
  "projected_votes total_projected_voters turnout =
     and_then (py_mul total_projected_voters turnout) (\<lambda>product. Inr (py_int (product / 100)))"

datatype outlook = Success | Info | Warning

definition scenario_outlook :: "json \<Rightarrow> outlook" where
  "scenario_outlook name =
     (if name = JStr ''High Youth Turnout'' then Success
      else if name = JStr ''Moderate Turnout'' then Info
      else Warning)"

record scenario_row =
  s_name :: json
  s_turnout :: json
  s_description :: json
  s_projected_votes :: int
  s_outlook :: outlook

text \<open>The body of the loop over \<open>predictions['scenarios']\<close> (lines 947-959).\<close>

definition scenario_row_of :: "json \<Rightarrow> json \<Rightarrow> error + scenario_row" where
  "scenario_row_of predictions scenario =
     and_then (subscript scenario ''name'') (\<lambda>name.
     and_then (subscript scenario ''turnout'') (\<lambda>shown.
     and_then (subscript scenario ''description'') (\<lambda>description.
     and_then (subscript predictions ''total_projected_voters'') (\<lambda>voters.
     and_then (subscript scenario ''turnout'') (\<lambda>turnout.
     and_then (projected_votes voters turnout) (\<lambda>votes.
     and_then (subscript scenario ''name'') (\<lambda>name'.
     Inr \<lparr>s_name = name, s_turnout = shown, s_description = description,
          s_projected_votes = votes, s_outlook = scenario_outlook name'\<rparr>)))))))"

record national_page =
  n_projected_voters_millions :: rat
  n_new_voters_millions :: rat
  n_youth_percentage :: json
  n_other_age_groups :: rat
  n_scenarios :: json
  n_factors :: "json list"
  n_scenario_rows :: "scenario_row list"

definition national_predictions :: "json \<Rightarrow> error + national_page" where
  "national_predictions data =
     and_then (subscript data ''predictions_2027'') (\<lambda>predictions.
     and_then (and_then (subscript predictions ''total_projected_voters'')
                 (\<lambda>v. py_div_lit v 1000000)) (\<lambda>projected.
     and_then (and_then (subscript predictions ''new_voters'')
                 (\<lambda>v. py_div_lit v 1000000)) (\<lambda>new.
     and_then (subscript predictions ''youth_percentage'') (\<lambda>youth.
     and_then (subscript predictions ''youth_percentage'') (\<lambda>youth'.
     and_then (subscript predictions ''youth_percentage'') (\<lambda>youth''.
     and_then (py_sub (JInt 100) youth'') (\<lambda>others.
     and_then (subscript predictions ''scenarios'') (\<lambda>scenarios.
     and_then (and_then (subscript predictions ''factors'') py_iter) (\<lambda>factors.
     and_then (and_then (subscript predictions ''scenarios'') py_iter) (\<lambda>ss.
     and_then (for_each (scenario_row_of predictions) ss) (\<lambda>rows.
     Inr \<lparr>n_projected_voters_millions = projected, n_new_voters_millions = new,
          n_youth_percentage = youth, n_other_age_groups = others,
          n_scenarios = scenarios, n_factors = factors,
          n_scenario_rows = rows\<rparr>)))))))))))"

section \<open>View selection (app.py, lines 100-106 and the chain of page branches)\<close>

datatype page =
    Overview
  | Interactive_Map
  | Historical_Results
  | Turnout_Trends
  | Regional_Patterns
  | County_Analysis
  | County_Predictions_2027
  | National_Predictions_2027

text \<open>
  What a page hands to the presentation layer. The Overview page shows literals only and
  reads no document.
\<close>

datatype view =
    Overview_View
  | Map_View map_page
  | Historical_View historical_page
  | Turnout_View turnout_page
  | Regional_View regional_page
  | County_View county_page
  | Predictions_View predictions_page
  | National_View national_page

text \<open>
  The chain \<open>if page == "Overview": ... elif page == "Interactive Map": ...\<close>; the year
  and the county are the choices made in the selectboxes of their pages.
\<close>

fun render :: "page \<Rightarrow> nat \<Rightarrow> string \<Rightarrow> json \<Rightarrow> json \<Rightarrow> json option \<Rightarrow> error + view" where
  "render Overview selected_year selected_county data county_data kenya_geojson =
     Inr Overview_View"
| "render Interactive_Map selected_year selected_county data county_data kenya_geojson =
     and_then (interactive_map kenya_geojson county_data) (\<lambda>v. Inr (Map_View v))"
| "render Historical_Results selected_year selected_county data county_data kenya_geojson =
     and_then (historical_results data selected_year) (\<lambda>v. Inr (Historical_View v))"
| "render Turnout_Trends selected_year selected_county data county_data kenya_geojson =
     and_then (turnout_trends data) (\<lambda>v. Inr (Turnout_View v))"
| "render Regional_Patterns selected_year selected_county data county_data kenya_geojson =
     and_then (regional_patterns data) (\<lambda>v. Inr (Regional_View v))"
| "render County_Analysis selected_year selected_county data county_data kenya_geojson =
     and_then (county_analysis county_data selected_county) (\<lambda>v. Inr (County_View v))"
| "render County_Predictions_2027 selected_year selected_county data county_data kenya_geojson =
     and_then (county_predictions county_data) (\<lambda>v. Inr (Predictions_View v))"
| "render National_Predictions_2027 selected_year selected_county data county_data kenya_geojson =
     and_then (national_predictions data) (\<lambda>v. Inr (National_View v))"

text \<open>
  One run of the script: the three loads, then the selected page. The result carries what
  the boundary loader showed and what the page produced.
\<close>

definition app ::
  "error + json \<Rightarrow> error + json \<Rightarrow> error + json \<Rightarrow> page \<Rightarrow> nat \<Rightarrow> string
     \<Rightarrow> error + notice list \<times> view" where
  "app election_file county_file geojson_file page selected_year selected_county =
     and_then (load_election_data election_file) (\<lambda>data.
     and_then (load_county_data county_file) (\<lambda>county_data.
     (case load_geojson geojson_file of (shown, kenya_geojson) \<Rightarrow>
        and_then (render page selected_year selected_county data county_data kenya_geojson)
          (\<lambda>v. Inr (shown, v)))))"

text \<open>The unavailability message of the map page, wherever a view would show it.\<close>

fun reports_unavailable :: "view \<Rightarrow> bool" where
  "reports_unavailable (Map_View (Map_Unavailable ns)) =
     (GeoJSON_file_not_found_Map_visualization_is_unavailable \<in> set ns)"
| "reports_unavailable v = False"

section \<open>Notions used in the statements\<close>

text \<open>
  The swing-potential category that a county record carries, when it is one of the five
  levels; a county document is well formed when its county names are distinct (as the keys
  of a dict are) and every county carries such a category.
\<close>

definition swing_level_of :: "json \<Rightarrow> string option" where
  "swing_level_of county_info =
     (case subscript2 county_info ''prediction_2027'' ''swing_potential'' of
        Inr (JStr level) \<Rightarrow> if level \<in> set swing_levels then Some level else None
      | _ \<Rightarrow> None)"

definition well_formed_counties :: "json dict \<Rightarrow> bool" where
  "well_formed_counties counties =
     (distinct (map fst counties) \<and>
      list_all (\<lambda>(name, info). swing_level_of info \<noteq> None) counties)"

text \<open>The counties of one category, in the order of the document.\<close>

definition bucket :: "json dict \<Rightarrow> string \<Rightarrow> string list" where
  "bucket counties level =
     map fst (filter (\<lambda>(name, info). swing_level_of info = Some level) counties)"

text \<open>A county document with 47 counties, for the concrete instances below.\<close>

definition sample_counties :: "json dict" where
  "sample_counties =
     map (\<lambda>i. (''County '' @ str_nat i,
               JObj [(''population'', JInt 100000),
                     (''prediction_2027'',
                        JObj [(''swing_potential'', JStr (swing_levels ! (i mod 5)))])]))
       [0..<47]"



section \<open>Sample documents\<close>

text \<open>
  Small documents of the shape the dashboard reads, for the concrete instances below.
  The turnouts and voter totals are the literals of the Overview page; the other figures
  are illustrative.
\<close>

definition sample_data :: json where
  "sample_data =
     JObj [(''elections'', JObj
        [(''2002'', JObj [(''year'', JInt 2002), (''registered_voters'', JInt 10450000),
            (''votes_cast'', JInt 5975000), (''turnout'', JFloat 57.18),
            (''candidates'', JArr
               [JObj [(''name'', JStr ''Mwai Kibaki''), (''party'', JStr ''NARC''),
                      (''votes'', JInt 3646000), (''percentage'', JFloat 61.3)],
                JObj [(''name'', JStr ''Uhuru Kenyatta''), (''party'', JStr ''KANU''),
                      (''votes'', JInt 1835000), (''percentage'', JFloat 30.2)]]),
            (''regional'', JObj
               [(''Nairobi'', JObj [(''Kibaki'', JFloat 76.5), (''Kenyatta'', JFloat 20.8),
                                    (''Nyachae'', JFloat 2.4)]),
                (''Central'', JObj [(''Kibaki'', JFloat 68.9), (''Kenyatta'', JFloat 30.3),
                                    (''Nyachae'', JFloat 0.4)])])]),
         (''2007'', JObj [(''year'', JInt 2007), (''registered_voters'', JInt 14300000),
            (''votes_cast'', JInt 9900000), (''turnout'', JFloat 69.23),
            (''candidates'', JArr [])]),
         (''2013'', JObj [(''year'', JInt 2013), (''registered_voters'', JInt 14350000),
            (''votes_cast'', JInt 12330000), (''turnout'', JFloat 85.91),
            (''candidates'', JArr [])]),
         (''2017'', JObj [(''year'', JInt 2017), (''registered_voters'', JInt 19610000),
            (''votes_cast'', JInt 15590000), (''turnout'', JFloat 79.51),
            (''candidates'', JArr [])]),
         (''2022'', JObj [(''year'', JInt 2022), (''registered_voters'', JInt 22120000),
            (''votes_cast'', JInt 14330000), (''turnout'', JFloat 64.77),
            (''candidates'', JArr [])])]),
       (''predictions_2027'', JObj
         [(''total_projected_voters'', JInt 27820015), (''new_voters'', JInt 5700000),
          (''youth_percentage'', JInt 65),
          (''scenarios'', JArr
             [JObj [(''name'', JStr ''High Youth Turnout''), (''turnout'', JInt 75),
                    (''description'', JStr ''Youth mobilise'')],
              JObj [(''name'', JStr ''Moderate Turnout''), (''turnout'', JFloat 67.5),
                    (''description'', JStr ''As in 2022'')],
              JObj [(''name'', JStr ''Low Youth Turnout''), (''turnout'', JInt 58),
                    (''description'', JStr ''Youth apathy'')]]),
          (''factors'', JArr [JStr ''Youth bulge'', JStr ''Cost of living''])])]"

text \<open>The Turnout Trends page of the sample document.\<close>

definition sample_turnout_page :: turnout_page where
  "sample_turnout_page =
     \<lparr>t_lists =
        \<lparr>years = [2002, 2007, 2013, 2017, 2022],
         turnouts = [JFloat 57.18, JFloat 69.23, JFloat 85.91, JFloat 79.51, JFloat 64.77],
         registered = [JInt 10450000, JInt 14300000, JInt 14350000, JInt 19610000,
                       JInt 22120000],
         votes_cast = [JInt 5975000, JInt 9900000, JInt 12330000, JInt 15590000,
                       JInt 14330000]\<rparr>,
      registered_millions = [10.45, 14.3, 14.35, 19.61, 22.12],
      average_turnout = 71.32, highest_turnout = 85.91, lowest_turnout = 57.18,
      change_2022_vs_2017 = - 14.74\<rparr>"



text \<open>A county record without \<open>prediction_2027\<close> and without \<open>results_2017\<close>.\<close>

definition missing_prediction :: json where
  "missing_prediction =
     JObj [(''counties'', JObj
        [(''Lamu'', JObj
           [(''youth_percentage'', JInt 70),
            (''results_2022'', JObj [(''Ruto'', JFloat 50.5), (''Odinga'', JFloat 48.8),
                                     (''turnout'', JInt 60)])])])]"

text \<open>A 2002 record without the key \<open>regional\<close>, and one whose regional breakdown is empty.\<close>

definition no_regional :: json where
  "no_regional =
     JObj [(''elections'', JObj
        [(''2002'', JObj [(''year'', JInt 2002), (''registered_voters'', JInt 10450000),
            (''votes_cast'', JInt 5975000), (''turnout'', JFloat 57.18),
            (''candidates'', JArr [])])])]"

definition empty_regional :: json where
  "empty_regional =
     JObj [(''elections'', JObj
        [(''2002'', JObj [(''year'', JInt 2002), (''registered_voters'', JInt 10450000),
            (''votes_cast'', JInt 5975000), (''turnout'', JFloat 57.18),
            (''candidates'', JArr []), (''regional'', JObj [])])])]"

text \<open>The Regional Patterns page with no rows.\<close>

definition no_rows :: regional_page where
  "no_rows = \<lparr>regions = [], kibaki_votes = [], kenyatta_votes = [], nyachae_votes = [],
              kibaki_regions = [], kenyatta_regions = []\<rparr>"

text \<open>What the Interactive Map page shows without the boundary document.\<close>

definition unavailable :: view where
  "unavailable =
     Map_View (Map_Unavailable
       [GeoJSON_file_not_found_Map_visualization_is_unavailable,
        The_map_requires_kenya_counties_geojson])"

section \<open>Properties of the Name Resolver\<close>

lemma GEOJSON_TO_DATA_MAP_eq:
  "GEOJSON_TO_DATA_MAP =
     [(''Keiyo-Marakwet'', ''Elgeyo Marakwet''), (''Tharaka'', ''Tharaka Nithi'')]"
  by (simp add: GEOJSON_TO_DATA_MAP_def COUNTY_NAME_MAP_def)

lemma get_geojson_name_cases:
  "get_geojson_name s =
     (if s = ''Elgeyo Marakwet'' then ''Keiyo-Marakwet''
      else if s = ''Tharaka Nithi'' then ''Tharaka'' else s)"
  by (simp add: get_geojson_name_def dict_get_def COUNTY_NAME_MAP_def)

lemma get_data_name_cases:
  "get_data_name g =
     (if g = ''Keiyo-Marakwet'' then ''Elgeyo Marakwet''
      else if g = ''Tharaka'' then ''Tharaka Nithi'' else g)"
  by (simp add: get_data_name_def dict_get_def GEOJSON_TO_DATA_MAP_eq)

text \<open>
  Claim C9. Every alias pair (S, G) of the table is translated S to G by
  \<open>get_geojson_name\<close> and G to S by \<open>get_data_name\<close>; a name that is not a key of the
  respective table is returned unchanged. Both functions are plain dictionary lookups
  with a default, so they return a name for every input name.
\<close>

theorem name_resolver_alias_and_fallback:
  "(\<forall>(S, G) \<in> set COUNTY_NAME_MAP. get_geojson_name S = G \<and> get_data_name G = S)
   \<and> (N \<notin> fst ` set COUNTY_NAME_MAP \<longrightarrow> get_geojson_name N = N)
   \<and> (N \<notin> fst ` set GEOJSON_TO_DATA_MAP \<longrightarrow> get_data_name N = N)"
proof (intro conjI impI)
  show "\<forall>(S, G) \<in> set COUNTY_NAME_MAP. get_geojson_name S = G \<and> get_data_name G = S"
    by (simp add: COUNTY_NAME_MAP_def get_geojson_name_cases get_data_name_cases)
next
  assume "N \<notin> fst ` set COUNTY_NAME_MAP"
  then show "get_geojson_name N = N"
    by (simp add: COUNTY_NAME_MAP_def get_geojson_name_cases)
next
  assume "N \<notin> fst ` set GEOJSON_TO_DATA_MAP"
  then show "get_data_name N = N"
    by (simp add: GEOJSON_TO_DATA_MAP_eq get_data_name_cases)
qed

theorem name_resolver_alias_and_fallback_witness:
  "(''Elgeyo Marakwet'', ''Keiyo-Marakwet'') \<in> set COUNTY_NAME_MAP
   \<and> get_geojson_name ''Elgeyo Marakwet'' = ''Keiyo-Marakwet''
   \<and> get_data_name ''Keiyo-Marakwet'' = ''Elgeyo Marakwet''
   \<and> ''Nairobi'' \<notin> fst ` set COUNTY_NAME_MAP
   \<and> get_geojson_name ''Nairobi'' = ''Nairobi''
   \<and> ''Nairobi'' \<notin> fst ` set GEOJSON_TO_DATA_MAP
   \<and> get_data_name ''Nairobi'' = ''Nairobi''"
proof -
  have a: "(''Elgeyo Marakwet'', ''Keiyo-Marakwet'') \<in> set COUNTY_NAME_MAP"
    by (simp add: COUNTY_NAME_MAP_def)
  have b: "''Nairobi'' \<notin> fst ` set COUNTY_NAME_MAP"
    by (simp add: COUNTY_NAME_MAP_def)
  have c: "''Nairobi'' \<notin> fst ` set GEOJSON_TO_DATA_MAP"
    by (simp add: GEOJSON_TO_DATA_MAP_eq)
  note t = name_resolver_alias_and_fallback [of "''Nairobi''"]
  from t have "\<forall>(S, G) \<in> set COUNTY_NAME_MAP. get_geojson_name S = G \<and> get_data_name G = S"
    by (rule conjunct1)
  from bspec [OF this a]
  have d: "get_geojson_name ''Elgeyo Marakwet'' = ''Keiyo-Marakwet''
           \<and> get_data_name ''Keiyo-Marakwet'' = ''Elgeyo Marakwet''"
    by simp
  from t b have e: "get_geojson_name ''Nairobi'' = ''Nairobi''"
    by simp
  from t c have f: "get_data_name ''Nairobi'' = ''Nairobi''"
    by simp
  from a b c d e f show ?thesis by simp
qed

text \<open>
  Claim C1, as stated, fails: the geographic name Tharaka is not a key of the forward
  table, so the forward translation leaves it alone, and the backward translation then
  maps it to Tharaka Nithi.
\<close>

theorem name_round_trip_counterexample:
  "get_data_name (get_geojson_name ''Tharaka'') \<noteq> ''Tharaka''"
  by (simp add: get_geojson_name_cases get_data_name_cases)

text \<open>
  Claim C1, amended. For every name S that is not itself one of the geographic-side
  alias names (the keys of the reverse table: Keiyo-Marakwet and Tharaka), translating
  forward and then backward returns S. This covers every statistical name, in the
  table or not.
\<close>

theorem name_round_trip:
  "S \<notin> fst ` set GEOJSON_TO_DATA_MAP \<Longrightarrow> get_data_name (get_geojson_name S) = S"
  by (simp add: GEOJSON_TO_DATA_MAP_eq get_geojson_name_cases get_data_name_cases)

theorem name_round_trip_witness:
  "''Tharaka Nithi'' \<notin> fst ` set GEOJSON_TO_DATA_MAP
   \<and> get_data_name (get_geojson_name ''Tharaka Nithi'') = ''Tharaka Nithi''"
proof -
  have a: "''Tharaka Nithi'' \<notin> fst ` set GEOJSON_TO_DATA_MAP"
    by (simp add: GEOJSON_TO_DATA_MAP_eq)
  from a name_round_trip [OF a] show ?thesis by simp
qed

section \<open>The grouping by swing potential\<close>

lemma subscript_JObj:
  "subscript (JObj d) k = (case map_of d k of Some v \<Rightarrow> Inr v | None \<Rightarrow> Inl (KeyError (JStr k)))"
  by (simp add: subscript_def)

lemma subscript_Inr_iff:
  "subscript v k = Inr x \<longleftrightarrow> (\<exists>d. v = JObj d \<and> map_of d k = Some x)"
  by (cases v) (auto simp: subscript_def split: option.splits)

lemma swing_level_get2:
  assumes "swing_level_of info = Some level"
  shows "get2 info ''prediction_2027'' ''swing_potential'' dflt = Inr (JStr level)"
    and "level \<in> set swing_levels"
proof -
  from assms obtain p where p: "subscript info ''prediction_2027'' = Inr p"
    and s: "subscript p ''swing_potential'' = Inr (JStr level)"
    and l: "level \<in> set swing_levels"
    by (cases "subscript info ''prediction_2027''")
       (auto simp: swing_level_of_def subscript2_def split: sum.splits json.splits if_splits)
  from p obtain d where d: "info = JObj d" "map_of d ''prediction_2027'' = Some p"
    by (auto simp: subscript_Inr_iff)
  from s obtain d' where d': "p = JObj d'" "map_of d' ''swing_potential'' = Some (JStr level)"
    by (auto simp: subscript_Inr_iff)
  show "get2 info ''prediction_2027'' ''swing_potential'' dflt = Inr (JStr level)"
    by (simp add: get2_def d d' dict_get_def)
  show "level \<in> set swing_levels" by (rule l)
qed

lemma dict_append_distinct:
  "distinct (map fst g) \<Longrightarrow>
   dict_append g k x = map (\<lambda>(l, b). (l, if l = k then b @ [x] else b)) g"
proof (induction g)
  case Nil
  then show ?case by simp
next
  case (Cons a g)
  obtain l b where a: "a = (l, b)" by (cases a)
  show ?case
  proof (cases "l = k")
    case True
    with Cons.prems a have "k \<notin> fst ` set g" by auto
    then have "map (\<lambda>(l, b). (l, if l = k then b @ [x] else b)) g = g"
      by (intro map_idI) (auto simp: image_iff)
    with True a show ?thesis by simp
  next
    case False
    with Cons a show ?thesis by simp
  qed
qed

lemma group_county_well_formed:
  assumes "map fst g = swing_levels" and "swing_level_of info = Some level"
  shows "group_county g (name, info) =
           Inr (map (\<lambda>(l, b). (l, if l = level then b @ [name] else b)) g)"
proof -
  have d: "distinct (map fst g)"
    by (simp add: assms(1) swing_levels_def)
  have "level \<in> set (map fst g)"
    using swing_level_get2(2) [OF assms(2)] assms(1) by simp
  then show ?thesis
    by (simp add: group_county_def swing_level_get2(1) [OF assms(2)] dict_append_distinct [OF d])
qed

lemma loop_group_county:
  assumes "map fst g = swing_levels"
    and "list_all (\<lambda>(name, info). swing_level_of info \<noteq> None) kvs"
  shows "loop group_county kvs g = Inr (map (\<lambda>(l, b). (l, b @ bucket kvs l)) g)"
  using assms
proof (induction kvs arbitrary: g)
  case Nil
  then show ?case by (simp add: bucket_def)
next
  case (Cons kv kvs)
  obtain name info where kv: "kv = (name, info)" by (cases kv)
  from Cons.prems(2) kv obtain level where lv: "swing_level_of info = Some level"
    by auto
  let ?g = "map (\<lambda>(l, b). (l, if l = level then b @ [name] else b)) g"
  have step: "group_county g (name, info) = Inr ?g"
    by (rule group_county_well_formed [OF Cons.prems(1) lv])
  have keys: "map fst ?g = swing_levels"
    using Cons.prems(1) by (simp add: comp_def case_prod_unfold)
  have rest: "list_all (\<lambda>(name, info). swing_level_of info \<noteq> None) kvs"
    using Cons.prems(2) by simp
  have "loop group_county (kv # kvs) g = loop group_county kvs ?g"
    by (simp add: kv step)
  also have "\<dots> = Inr (map (\<lambda>(l, b). (l, b @ bucket kvs l)) ?g)"
    by (rule Cons.IH [OF keys rest])
  also have "map (\<lambda>(l, b). (l, b @ bucket kvs l)) ?g
             = map (\<lambda>(l, b). (l, b @ bucket (kv # kvs) l)) g"
    by (simp add: bucket_def kv lv case_prod_unfold)
  finally show ?case .
qed

lemma swing_groups_buckets:
  assumes "subscript county_data ''counties'' = Inr (JObj counties)"
    and "list_all (\<lambda>(name, info). swing_level_of info \<noteq> None) counties"
  shows "swing_groups county_data = Inr (map (\<lambda>l. (l, bucket counties l)) swing_levels)"
proof -
  have "map fst empty_groups = swing_levels"
    by (simp add: empty_groups_def comp_def)
  from loop_group_county [OF this assms(2)]
  show ?thesis
    by (simp add: swing_groups_def assms(1) empty_groups_def comp_def)
qed

lemma count_one:
  "distinct ls \<Longrightarrow> a \<in> set ls \<Longrightarrow> (\<Sum>l\<leftarrow>ls. if a = l then 1 else 0) = (1::nat)"
  by (induction ls) auto

lemma bucket_sizes:
  assumes "list_all (\<lambda>(name, info). swing_level_of info \<noteq> None) kvs"
  shows "(\<Sum>l\<leftarrow>swing_levels. length (bucket kvs l)) = length kvs"
  using assms
proof (induction kvs)
  case Nil
  then show ?case by (simp add: bucket_def)
next
  case (Cons kv kvs)
  obtain name info where kv: "kv = (name, info)" by (cases kv)
  from Cons.prems kv obtain level where lv: "swing_level_of info = Some level"
    by auto
  have mem: "level \<in> set swing_levels"
    by (rule swing_level_get2(2) [OF lv])
  have dist: "distinct swing_levels"
    by (simp add: swing_levels_def)
  have "(\<Sum>l\<leftarrow>swing_levels. length (bucket (kv # kvs) l))
        = (\<Sum>l\<leftarrow>swing_levels. (if level = l then 1 else 0) + length (bucket kvs l))"
    by (rule arg_cong [where f = sum_list]) (simp add: bucket_def kv lv)
  also have "\<dots> = (\<Sum>l\<leftarrow>swing_levels. if level = l then 1 else 0)
                  + (\<Sum>l\<leftarrow>swing_levels. length (bucket kvs l))"
    by (simp add: sum_list_addf)
  also have "\<dots> = 1 + length kvs"
    using Cons.IH Cons.prems by (simp add: count_one [OF dist mem])
  finally show ?case by simp
qed

lemma map_of_tabulate:
  "l \<in> set ls \<Longrightarrow> map_of (map (\<lambda>l. (l, f l)) ls) l = Some (f l)"
  by (induction ls) auto

lemma bucket_member:
  "name \<in> set (bucket kvs level) \<longleftrightarrow>
     (\<exists>info. (name, info) \<in> set kvs \<and> swing_level_of info = Some level)"
  by (auto simp: bucket_def image_iff)

lemma bucket_distinct: "distinct (map fst kvs) \<Longrightarrow> distinct (bucket kvs level)"
  by (simp add: bucket_def distinct_map_filter)

text \<open>
  Claim C5. In a well-formed county document the grouping by swing potential returns the
  five buckets in the order Very High, High, Medium, Low, Very Low; each bucket holds the
  counties of its category in document order; the bucket sizes add up to the number of
  counties (47 for the 47-county document); every county is in exactly one bucket, and no
  bucket lists a county twice.
\<close>

theorem swing_groups_partition:
  assumes "subscript county_data ''counties'' = Inr (JObj counties)"
    and "well_formed_counties counties"
  shows "\<exists>groups. swing_groups county_data = Inr groups
           \<and> map fst groups = swing_levels
           \<and> (\<forall>level \<in> set swing_levels. dict_get groups level [] = bucket counties level)
           \<and> sum_list (map (\<lambda>(level, names). length names) groups) = length counties
           \<and> (\<forall>name \<in> set (map fst counties).
                 \<exists>!level. level \<in> set swing_levels \<and> name \<in> set (dict_get groups level []))
           \<and> (\<forall>level \<in> set swing_levels. distinct (dict_get groups level []))"
proof -
  from assms(2) have dist: "distinct (map fst counties)"
    and wf: "list_all (\<lambda>(name, info). swing_level_of info \<noteq> None) counties"
    by (simp_all add: well_formed_counties_def)
  let ?groups = "map (\<lambda>l. (l, bucket counties l)) swing_levels"
  have run: "swing_groups county_data = Inr ?groups"
    by (rule swing_groups_buckets [OF assms(1) wf])
  have keys: "map fst ?groups = swing_levels"
    by (simp add: comp_def)
  have get: "dict_get ?groups level [] = bucket counties level"
    if "level \<in> set swing_levels" for level
    by (simp add: dict_get_def map_of_tabulate [OF that])
  have sizes: "sum_list (map (\<lambda>(level, names). length names) ?groups) = length counties"
    using bucket_sizes [OF wf] by (simp add: comp_def)
  have one: "\<exists>!level. level \<in> set swing_levels \<and> name \<in> set (dict_get ?groups level [])"
    if "name \<in> set (map fst counties)" for name
  proof -
    from that obtain info where info: "(name, info) \<in> set counties" by auto
    with wf obtain level where lv: "swing_level_of info = Some level"
      by (auto simp: list_all_iff)
    have mem: "level \<in> set swing_levels"
      by (rule swing_level_get2(2) [OF lv])
    show ?thesis
    proof (rule ex1I [of _ level])
      show "level \<in> set swing_levels \<and> name \<in> set (dict_get ?groups level [])"
        using mem info lv by (auto simp: get bucket_member)
    next
      fix l
      assume l: "l \<in> set swing_levels \<and> name \<in> set (dict_get ?groups l [])"
      then obtain info' where i': "(name, info') \<in> set counties"
        and lv': "swing_level_of info' = Some l"
        by (auto simp: get bucket_member)
      from dist info i' have "info' = info"
        by (meson eq_key_imp_eq_value)
      with lv lv' show "l = level" by simp
    qed
  qed
  have dists: "distinct (dict_get ?groups level [])" if "level \<in> set swing_levels" for level
    by (simp add: get [OF that] bucket_distinct [OF dist])
  from run keys get sizes one dists show ?thesis
    by blast
qed

lemma sample_wf: "well_formed_counties sample_counties"
  by code_simp

lemma sample_len: "length sample_counties = 47"
  by (simp add: sample_counties_def)

theorem swing_groups_partition_witness:
  "subscript (JObj [(''counties'', JObj sample_counties)]) ''counties'' = Inr (JObj sample_counties)
   \<and> well_formed_counties sample_counties
   \<and> (\<exists>groups. swing_groups (JObj [(''counties'', JObj sample_counties)]) = Inr groups
         \<and> map fst groups = swing_levels
         \<and> sum_list (map (\<lambda>(level, names). length names) groups) = 47)"
proof -
  have a: "subscript (JObj [(''counties'', JObj sample_counties)]) ''counties''
           = Inr (JObj sample_counties)"
    by (simp add: subscript_def)
  from swing_groups_partition [OF a sample_wf] a sample_wf sample_len
  show ?thesis by auto
qed

section \<open>The turnout mean\<close>

lemma and_then_Inr_iff:
  "and_then m f = Inr y \<longleftrightarrow> (\<exists>x. m = Inr x \<and> f x = Inr y)"
  by (cases m) auto












lemma sample_turnout_run: "turnout_trends sample_data = Inr sample_turnout_page"
  by code_simp



section \<open>Swing counties and battlegrounds\<close>

lemma py_in_list_swap: "py_in_list s [a, b] = py_in_list s [b, a]"
  by (cases s) auto

lemma swing_in_swap: "swing_in county_data [a, b] = swing_in county_data [b, a]"
  by (rule ext) (simp add: swing_in_def py_in_list_swap)

lemma sum_ones: "sum_list (map (\<lambda>c. Suc 0) xs) = length xs"
  by (induction xs) auto

text \<open>
  Claim C10. On the County Predictions 2027 page the Swing Counties metric and the
  battleground list are computed by two comprehensions that differ only in the order of
  the two literals tested. For every county document they either raise the same exception
  or the metric equals the length of the list.
\<close>

theorem swing_counties_is_battleground_length:
  "swing_counties county_data = map_sum id length (battleground county_data)"
proof (cases "county_names county_data")
  case (Inl e)
  then show ?thesis
    by (simp add: swing_counties_def battleground_def)
next
  case (Inr cs)
  have "swing_in county_data [''High'', ''Very High'']
        = swing_in county_data [''Very High'', ''High'']"
    by (rule swing_in_swap)
  then show ?thesis
    by (cases "for_each_if (swing_in county_data [''Very High'', ''High'']) cs")
       (simp_all add: swing_counties_def battleground_def Inr sum_ones)
qed

section \<open>Vote shifts of a county\<close>




section \<open>Projected votes of a scenario\<close>






section \<open>Missing data\<close>

text \<open>
  Claim C4, as stated, fails: when the 2002 record has no key \<open>regional\<close>, the
  subscript \<open>election_2002['regional']\<close> raises KeyError.
\<close>

theorem regional_patterns_counterexample:
  "regional_patterns no_regional = Inl (KeyError (JStr ''regional''))"
  by code_simp

text \<open>
  Claim C4, amended. When the 2002 record carries an empty regional breakdown (an empty
  dict under \<open>regional\<close>), the Regional Patterns page has zero rows and raises
  nothing; when the record has no key \<open>regional\<close> at all, the page raises KeyError.
\<close>

theorem regional_patterns_degenerate:
  assumes "subscript2 data ''elections'' ''2002'' = Inr election_2002"
  shows "(subscript election_2002 ''regional'' = Inr (JObj []) \<longrightarrow>
            regional_patterns data = Inr no_rows)
         \<and> ((\<exists>d. election_2002 = JObj d \<and> map_of d ''regional'' = None) \<longrightarrow>
            regional_patterns data = Inl (KeyError (JStr ''regional'')))"
proof (intro conjI impI)
  assume "subscript election_2002 ''regional'' = Inr (JObj [])"
  with assms show "regional_patterns data = Inr no_rows"
    by (simp add: regional_patterns_def region_votes_def strongest_def no_rows_def)
next
  assume "\<exists>d. election_2002 = JObj d \<and> map_of d ''regional'' = None"
  then have "subscript election_2002 ''regional'' = Inl (KeyError (JStr ''regional''))"
    by (auto simp: subscript_def)
  with assms show "regional_patterns data = Inl (KeyError (JStr ''regional''))"
    by (simp add: regional_patterns_def)
qed

theorem regional_patterns_degenerate_witness:
  "(\<exists>e. subscript2 empty_regional ''elections'' ''2002'' = Inr e
        \<and> subscript e ''regional'' = Inr (JObj []))
   \<and> regional_patterns empty_regional = Inr no_rows
   \<and> (\<exists>e d. subscript2 no_regional ''elections'' ''2002'' = Inr e
        \<and> e = JObj d \<and> map_of d ''regional'' = None)
   \<and> regional_patterns no_regional = Inl (KeyError (JStr ''regional''))"
proof -
  let ?e = "JObj [(''year'', JInt 2002), (''registered_voters'', JInt 10450000),
            (''votes_cast'', JInt 5975000), (''turnout'', JFloat 57.18),
            (''candidates'', JArr []), (''regional'', JObj [])]"
  let ?d = "[(''year'', JInt 2002), (''registered_voters'', JInt 10450000),
            (''votes_cast'', JInt 5975000), (''turnout'', JFloat 57.18),
            (''candidates'', JArr [])]"
  have a: "subscript2 empty_regional ''elections'' ''2002'' = Inr ?e"
    by (simp add: empty_regional_def subscript2_def subscript_def)
  have b: "subscript ?e ''regional'' = Inr (JObj [])"
    by (simp add: subscript_def)
  have c: "subscript2 no_regional ''elections'' ''2002'' = Inr (JObj ?d)"
    by (simp add: no_regional_def subscript2_def subscript_def)
  have d: "map_of ?d ''regional'' = None"
    by simp
  from regional_patterns_degenerate [OF a] b
  have 1: "regional_patterns empty_regional = Inr no_rows" by blast
  from regional_patterns_degenerate [OF c] d
  have 2: "regional_patterns no_regional = Inl (KeyError (JStr ''regional''))" by blast
  from a b c d 1 2 show ?thesis by blast
qed

text \<open>
  Claim C2 against the code: for a county without \<open>prediction_2027\<close>, the row
  construction of the Interactive Map page raises KeyError and the page is aborted, while
  the County Predictions table and the County Analysis page, which read with defaults,
  show zero and Unknown for the same county.
\<close>

theorem interactive_map_missing_prediction:
  "map_data missing_prediction = Inl (KeyError (JStr ''prediction_2027''))
   \<and> render Interactive_Map 2022 ''Lamu'' sample_data missing_prediction (Some (JObj []))
       = Inl (KeyError (JStr ''prediction_2027''))
   \<and> county_pred_data missing_prediction =
       Inr [\<lparr>p_County = ''Lamu'', p_Projected_Voters = JInt 0, p_New_Youth_Voters = JInt 0,
             p_Likely_Turnout = JInt 0, p_Trend = JStr ''Unknown'',
             p_Swing_Potential = JStr ''Unknown''\<rparr>]
   \<and> map_sum id (\<lambda>v. (turnout_2017 v, kenyatta_2017 v, odinga_2017 v))
        (county_analysis missing_prediction ''Lamu'') = Inr (JInt 0, JInt 0, JInt 0)"
proof (intro conjI)
  show m: "map_data missing_prediction = Inl (KeyError (JStr ''prediction_2027''))"
    by code_simp
  show "render Interactive_Map 2022 ''Lamu'' sample_data missing_prediction (Some (JObj []))
       = Inl (KeyError (JStr ''prediction_2027''))"
    by (simp add: interactive_map_def m)
  show "county_pred_data missing_prediction =
       Inr [\<lparr>p_County = ''Lamu'', p_Projected_Voters = JInt 0, p_New_Youth_Voters = JInt 0,
             p_Likely_Turnout = JInt 0, p_Trend = JStr ''Unknown'',
             p_Swing_Potential = JStr ''Unknown''\<rparr>]"
    by code_simp
  show "map_sum id (\<lambda>v. (turnout_2017 v, kenyatta_2017 v, odinga_2017 v))
        (county_analysis missing_prediction ''Lamu'') = Inr (JInt 0, JInt 0, JInt 0)"
    by code_simp
qed

section \<open>A missing boundary document\<close>

text \<open>
  Claim C3. When the boundary document cannot be loaded, \<open>load_geojson\<close> returns None
  (after showing the load error) instead of raising. Every page other than Interactive Map
  produces exactly what it produces with a boundary document, from the two statistical
  documents alone. The Interactive Map page shows its unavailability message, and no
  other page, and no page with a boundary document, shows that message.
\<close>

theorem boundary_failure_is_local:
  "load_geojson (Inl e) = ([Error_loading_GeoJSON e], None)
   \<and> (page \<noteq> Interactive_Map \<longrightarrow>
         render page y c data county_data None = render page y c data county_data (Some g)
       \<and> app (Inr data) (Inr county_data) (Inl e) page y c
           = and_then (render page y c data county_data (Some g))
               (\<lambda>v. Inr ([Error_loading_GeoJSON e], v)))
   \<and> render Interactive_Map y c data county_data None = Inr unavailable
   \<and> app (Inr data) (Inr county_data) (Inl e) Interactive_Map y c
       = Inr ([Error_loading_GeoJSON e], unavailable)
   \<and> (render page y c data county_data kenya_geojson = Inr v \<and> reports_unavailable v \<longrightarrow>
         page = Interactive_Map \<and> kenya_geojson = None)"
proof (intro conjI impI)
  show l: "load_geojson (Inl e) = ([Error_loading_GeoJSON e], None)"
    by (simp add: load_geojson_def)
  show u: "render Interactive_Map y c data county_data None = Inr unavailable"
    by (simp add: interactive_map_def unavailable_def)
  show "app (Inr data) (Inr county_data) (Inl e) Interactive_Map y c
       = Inr ([Error_loading_GeoJSON e], unavailable)"
    by (simp add: app_def load_election_data_def load_county_data_def l u del: render.simps)
  {
    assume p: "page \<noteq> Interactive_Map"
    then show r: "render page y c data county_data None
                  = render page y c data county_data (Some g)"
      by (cases page) simp_all
    show "app (Inr data) (Inr county_data) (Inl e) page y c
           = and_then (render page y c data county_data (Some g))
               (\<lambda>v. Inr ([Error_loading_GeoJSON e], v))"
      by (simp add: app_def load_election_data_def load_county_data_def l r)
  }
  {
    assume a: "render page y c data county_data kenya_geojson = Inr v \<and> reports_unavailable v"
    show "page = Interactive_Map"
      using a by (cases page) (auto simp: and_then_Inr_iff)
    then show "kenya_geojson = None"
      using a by (cases kenya_geojson) (auto simp: and_then_Inr_iff interactive_map_def)
  }
qed

theorem boundary_failure_is_local_witness:
  "Turnout_Trends \<noteq> Interactive_Map
   \<and> app (Inr sample_data) (Inr (JObj [(''counties'', JObj sample_counties)])) (Inl FileError)
        Turnout_Trends 2022 ''County 0''
       = Inr ([Error_loading_GeoJSON FileError], Turnout_View sample_turnout_page)
   \<and> render Interactive_Map 2022 ''County 0'' sample_data
        (JObj [(''counties'', JObj sample_counties)]) None = Inr unavailable
   \<and> reports_unavailable unavailable"
proof -
  let ?c = "JObj [(''counties'', JObj sample_counties)]"
  note t = boundary_failure_is_local
    [of FileError Turnout_Trends 2022 "''County 0''" sample_data ?c "JObj []" None unavailable]
  note i = boundary_failure_is_local
    [of FileError Interactive_Map 2022 "''County 0''" sample_data ?c "JObj []" None unavailable]
  have p: "Turnout_Trends \<noteq> Interactive_Map" by simp
  have r: "render Turnout_Trends 2022 ''County 0'' sample_data ?c (Some (JObj []))
           = Inr (Turnout_View sample_turnout_page)"
    by (simp add: sample_turnout_run)
  from t p r have 1: "app (Inr sample_data) (Inr ?c) (Inl FileError) Turnout_Trends 2022 ''County 0''
       = Inr ([Error_loading_GeoJSON FileError], Turnout_View sample_turnout_page)"
    by simp
  from i have 2: "render Interactive_Map 2022 ''County 0'' sample_data ?c None = Inr unavailable"
    by blast
  have 3: "reports_unavailable unavailable"
    by (simp add: unavailable_def)
  from p 1 2 3 show ?thesis by blast
qed

end
